theory Spec2Isabelle
  imports Main
begin

section \<open>Python strings\<close>

text \<open>
  A string is the list of its code points, each below 256 (Latin-1); text beyond that
  is outside the model.  \<open>strip\<close> is \<^verbatim>\<open>str.strip()\<close>, which removes the
  characters that \<^verbatim>\<open>str.isspace\<close> accepts, \<open>lower\<close> is \<^verbatim>\<open>str.lower()\<close>.
\<close>

definition is_space :: "char \<Rightarrow> bool" where
  "is_space c = (c \<in> set [CHR 0x09, CHR 0x0A, CHR 0x0B, CHR 0x0C, CHR 0x0D,
                           CHR 0x1C, CHR 0x1D, CHR 0x1E, CHR 0x1F, CHR 0x20,
                           CHR 0x85, CHR 0xA0])"

definition strip :: "string \<Rightarrow> string" where
  "strip s = rev (dropWhile is_space (rev (dropWhile is_space s)))"

text \<open>
  The capital letters below 256 and their small letters: \<open>A\<close> to \<open>Z\<close>, and the
  accented capitals \<open>0xC0\<close> to \<open>0xDE\<close> without the multiplication sign \<open>0xD7\<close>.
\<close>

definition capitals :: "char list" where
  "capitals =
     ''ABCDEFGHIJKLMNOPQRSTUVWXYZ'' @
       [CHR 0xC0, CHR 0xC1, CHR 0xC2, CHR 0xC3, CHR 0xC4, CHR 0xC5, CHR 0xC6, CHR 0xC7,
        CHR 0xC8, CHR 0xC9, CHR 0xCA, CHR 0xCB, CHR 0xCC, CHR 0xCD, CHR 0xCE, CHR 0xCF,
        CHR 0xD0, CHR 0xD1, CHR 0xD2, CHR 0xD3, CHR 0xD4, CHR 0xD5, CHR 0xD6, CHR 0xD8,
        CHR 0xD9, CHR 0xDA, CHR 0xDB, CHR 0xDC, CHR 0xDD, CHR 0xDE]"

definition smalls :: "char list" where
  "smalls =
     ''abcdefghijklmnopqrstuvwxyz'' @
       [CHR 0xE0, CHR 0xE1, CHR 0xE2, CHR 0xE3, CHR 0xE4, CHR 0xE5, CHR 0xE6, CHR 0xE7,
        CHR 0xE8, CHR 0xE9, CHR 0xEA, CHR 0xEB, CHR 0xEC, CHR 0xED, CHR 0xEE, CHR 0xEF,
        CHR 0xF0, CHR 0xF1, CHR 0xF2, CHR 0xF3, CHR 0xF4, CHR 0xF5, CHR 0xF6, CHR 0xF8,
        CHR 0xF9, CHR 0xFA, CHR 0xFB, CHR 0xFC, CHR 0xFD, CHR 0xFE]"

definition lower_char :: "char \<Rightarrow> char" where
  "lower_char c = (case map_of (zip capitals smalls) c of None \<Rightarrow> c | Some l \<Rightarrow> l)"

definition lower :: "string \<Rightarrow> string" where
  "lower s = map lower_char s"

definition startswith :: "string \<Rightarrow> string \<Rightarrow> bool" where
  "startswith s p = (take (length p) s = p)"

text \<open>\<^verbatim>\<open>s.split(c)\<close> with an explicit one-character separator.\<close>

fun split_on :: "char \<Rightarrow> string \<Rightarrow> string list" where
  "split_on c [] = [[]]"
| "split_on c (x # xs) =
     (if x = c then [] # split_on c xs
      else (case split_on c xs of [] \<Rightarrow> [[x]] | p # ps \<Rightarrow> (x # p) # ps))"

text \<open>\<^verbatim>\<open>s.split(c, n)\<close>: at most \<open>n\<close> splits, the rest of the string is the last part.\<close>

fun split_max :: "char \<Rightarrow> nat \<Rightarrow> string \<Rightarrow> string list" where
  "split_max c 0 s = [s]"
| "split_max c (Suc n) [] = [[]]"
| "split_max c (Suc n) (x # xs) =
     (if x = c then [] # split_max c n xs
      else (case split_max c (Suc n) xs of [] \<Rightarrow> [[x]] | p # ps \<Rightarrow> (x # p) # ps))"

text \<open>
  \<^verbatim>\<open>s.replace(old, new)\<close>: every non-overlapping occurrence of \<open>old\<close>, scanning from
  the left.  (With an empty \<open>old\<close> Python inserts \<open>new\<close> around every character.)
\<close>

function replace :: "string \<Rightarrow> string \<Rightarrow> string \<Rightarrow> string" where
  "replace old new [] = (if old = [] then new else [])"
| "replace old new (c # cs) =
     (if old = [] then new @ c # replace old new cs
      else if take (length old) (c # cs) = old
           then new @ replace old new (drop (length old) (c # cs))
           else c # replace old new cs)"
  by pat_completeness auto
termination
  by (relation "measure (\<lambda>(old, new, s). length s)") auto

text \<open>\<^verbatim>\<open>list(dict.fromkeys(xs))\<close>: duplicates removed, first occurrences kept in order.\<close>

fun unique :: "'a list \<Rightarrow> 'a list" where
  "unique [] = []"
| "unique (x # xs) = x # unique (filter (\<lambda>y. y \<noteq> x) xs)"

text \<open>\<^verbatim>\<open>str(n)\<close> for an integer.\<close>

definition digit :: "nat \<Rightarrow> char" where
  "digit d = char_of (48 + d)"

fun nat_str :: "nat \<Rightarrow> string" where
  "nat_str n = (if n < 10 then [digit n] else nat_str (n div 10) @ [digit (n mod 10)])"

definition int_str :: "int \<Rightarrow> string" where
  "int_str i = (if i < 0 then CHR ''-'' # nat_str (nat (- i)) else nat_str (nat i))"

section \<open>Rows of the sheet\<close>

text \<open>
  A cell of the data frame: a missing value, a text, or an integer of an integer column
  (a \<^verbatim>\<open>numpy.int64\<close>).  The program looks at a cell through \<^verbatim>\<open>pd.isna\<close>, its truth
  value, \<^verbatim>\<open>str()\<close> and \<^verbatim>\<open>isinstance(_, str)\<close>, and it puts the handle and the title of
  a product into the body of a request as they are.  A row (a pandas Series) is the list
  of its columns with their cells, in the order of the sheet.
\<close>

datatype cell = CNaN | CStr string | CInt int

datatype error = KeyError string | IndexError | TypeError

type_synonym row = "(string \<times> cell) list"

definition isna :: "cell \<Rightarrow> bool" where
  "isna c = (c = CNaN)"

fun truthy :: "cell \<Rightarrow> bool" where
  "truthy CNaN = True"
| "truthy (CStr s) = (s \<noteq> [])"
| "truthy (CInt n) = (n \<noteq> 0)"

fun py_str :: "cell \<Rightarrow> string" where
  "py_str CNaN = ''nan''"
| "py_str (CStr s) = s"
| "py_str (CInt n) = int_str n"

text \<open>\<^verbatim>\<open>row.get(k, d)\<close>, \<^verbatim>\<open>row[k]\<close> (raises KeyError) and \<^verbatim>\<open>k in row\<close>.\<close>

definition row_get :: "row \<Rightarrow> string \<Rightarrow> cell \<Rightarrow> cell" where
  "row_get r k d = (case map_of r k of None \<Rightarrow> d | Some c \<Rightarrow> c)"

definition row_item :: "row \<Rightarrow> string \<Rightarrow> error + cell" where
  "row_item r k = (case map_of r k of None \<Rightarrow> Inl (KeyError k) | Some c \<Rightarrow> Inr c)"

definition row_has :: "row \<Rightarrow> string \<Rightarrow> bool" where
  "row_has r k = (map_of r k \<noteq> None)"

text \<open>The truth value of an optional string (\<^verbatim>\<open>None\<close> and \<^verbatim>\<open>''\<close> are false).\<close>

fun truthy_opt :: "string option \<Rightarrow> bool" where
  "truthy_opt None = False"
| "truthy_opt (Some s) = (s \<noteq> [])"

section \<open>Requests and responses of the remote API\<close>

record product_input =
  pi_handle :: cell
  pi_title :: cell
  pi_descriptionHtml :: string
  pi_vendor :: string
  pi_productType :: string
  pi_tags :: "string list"

text \<open>One constructor for each query or mutation text of the source, with its variables.\<close>

datatype request =
    Q_productByHandle string
  | M_productCreate product_input
  | M_productOptionsCreate string string "string list"
  | Q_getProductVariants string
  | M_productVariantsBulkUpdate "string option" "(string \<times> string) list"
  | M_inventoryItemUpdate string string
  | Q_getVariant string
  | M_productVariantsBulkCreate string string "(string \<times> string) option"
  | M_productUpdate string product_input
  | M_productUpdateImages string "string list"
  | M_fileCreate string string
  | M_metafieldsSet string string string string string
  | Q_getPublications
  | M_publishablePublish string string
  | Q_getProduct string

text \<open>
  The payloads, typed after the selection sets of the queries: an object that may be
  \<^verbatim>\<open>null\<close> is an option, an identifier is a string.
\<close>

record variant_node =
  vn_id :: string
  vn_sku :: "string option"
  vn_title :: string

record product_lookup =
  pl_id :: string
  pl_options :: "string list"
  pl_variants :: "variant_node list"

record new_variant =
  nv_id :: string
  nv_inventoryItem :: "string option"
  nv_selectedOptions :: "(string \<times> string) list"

record 'a mutation_result =
  result :: 'a
  userErrors :: "string list"

datatype payload =
    D_productByHandle "product_lookup option"
  | D_productCreate "string option mutation_result option"
  | D_productOptionsCreate "unit mutation_result option"
  | D_productVariants "new_variant list option"
  | D_productVariantsBulkUpdate "string list option mutation_result option"
  | D_inventoryItemUpdate "string option mutation_result option"
  | D_productVariant "string option option"
  | D_productVariantsBulkCreate "string list option mutation_result option"
  | D_productUpdate "string option mutation_result option"
  | D_fileCreate "string option list option mutation_result option"
  | D_metafieldsSet "unit mutation_result option"
  | D_publications "(string \<times> string) list option"
  | D_publishablePublish "unit mutation_result option"
  | D_productOptions "string list option"

text \<open>
  The response envelope: whether it has a top-level \<^verbatim>\<open>errors\<close> list, the cost telemetry
  (\<open>None\<close>: no \<^verbatim>\<open>extensions.cost\<close>; \<open>Some None\<close>: a cost without
  \<^verbatim>\<open>throttleStatus.currentlyAvailable\<close>; \<open>Some (Some n)\<close>: the available budget), and
  the \<^verbatim>\<open>data\<close>.
\<close>

record envelope =
  env_errors :: bool
  env_cost :: "int option option"
  env_data :: "payload option"

datatype outcome = TransportFailure | Response envelope

datatype event = Request request | Sleep nat

record file_info =
  fi_b64 :: "string option"
  fi_suffix :: string
  fi_name :: string

text \<open>
  The world the program runs in: the outcomes of the requests still to come (an exhausted
  script is a network failure), what the program has done so far, the local files
  (\<open>None\<close>: the path does not exist; \<open>fi_b64 = None\<close>: reading it raises), and whether
  the installed \<^verbatim>\<open>requests\<close> refuses a NaN in the body of a request (recent versions
  do, older ones send it).
\<close>

record world =
  script :: "outcome list"
  trace :: "event list"
  fs :: "string \<Rightarrow> file_info option"
  strict_json :: bool

section \<open>The request dispatcher\<close>

definition sleep :: "nat \<Rightarrow> world \<Rightarrow> world" where
  "sleep n w = w\<lparr>trace := trace w @ [Sleep n]\<rparr>"

text \<open>
  \<^verbatim>\<open>requests.post\<close> encodes the body as JSON before anything is sent.  Every variable of
  every request is a text, but the handle and the title of a product input, which are
  cells.  An integer cell cannot be encoded: \<^verbatim>\<open>TypeError\<close>.  A NaN is refused by a strict
  library: \<^verbatim>\<open>InvalidJSONError\<close>, which is a \<^verbatim>\<open>RequestException\<close>.  The encoder takes the
  entries of the input in their order, the handle before the title, and stops at the
  first it cannot encode.
\<close>

datatype encode_error = NotSerializable | OutOfRange

fun request_cells :: "request \<Rightarrow> cell list" where
  "request_cells (M_productCreate product_input) =
     [pi_handle product_input, pi_title product_input]"
| "request_cells (M_productUpdate product_id input_vars) =
     [pi_handle input_vars, pi_title input_vars]"
| "request_cells _ = []"

fun cells_failure :: "bool \<Rightarrow> cell list \<Rightarrow> encode_error option" where
  "cells_failure strict [] = None"
| "cells_failure strict (CStr s # cs) = cells_failure strict cs"
| "cells_failure strict (CInt n # cs) = Some NotSerializable"
| "cells_failure strict (CNaN # cs) = (if strict then Some OutOfRange else cells_failure strict cs)"

definition encode_failure :: "bool \<Rightarrow> request \<Rightarrow> encode_error option" where
  "encode_failure strict req = cells_failure strict (request_cells req)"

text \<open>
  The exchange with the remote once the body is encoded (lines 30-53): the request is
  sent and the next outcome of the script is its answer.
\<close>

definition exchange :: "request \<Rightarrow> world \<Rightarrow> payload option \<times> world" where
  "exchange req w =
     (let w1 = w\<lparr>script := tl (script w), trace := trace w @ [Request req]\<rparr> in
      case script w of
        [] \<Rightarrow> (None, w1)
      | TransportFailure # _ \<Rightarrow> (None, w1)
      | Response e # _ \<Rightarrow>
          if env_errors e then (None, w1)
          else (env_data e,
                (case env_cost e of
                   None \<Rightarrow> w1
                 | Some cost \<Rightarrow>
                     (let available = (case cost of None \<Rightarrow> 1000 | Some n \<Rightarrow> n)
                      in if available < 200 then sleep 5 w1 else w1))))"

text \<open>
  \<open>run_graphql_query\<close>: the \<^verbatim>\<open>TypeError\<close> of the encoder is not among the exceptions
  that the dispatcher catches and goes to its caller; the \<^verbatim>\<open>RequestException\<close> is caught
  and the result is \<^verbatim>\<open>None\<close>.  In both cases nothing has been sent.
\<close>

definition run_graphql_query :: "request \<Rightarrow> world \<Rightarrow> (error + payload option) \<times> world" where
  "run_graphql_query req w =
     (case encode_failure (strict_json w) req of
        Some NotSerializable \<Rightarrow> (Inl TypeError, w)
      | Some OutOfRange \<Rightarrow> (Inr None, w)
      | None \<Rightarrow> (let (data, w1) = exchange req w in (Inr data, w1)))"

section \<open>Images and metafields\<close>

definition mime_type_map :: "(string \<times> string) list" where
  "mime_type_map =
     [(''.jpg'', ''image/jpeg''), (''.jpeg'', ''image/jpeg''), (''.png'', ''image/png''),
      (''.gif'', ''image/gif''), (''.webp'', ''image/webp'')]"

text \<open>
  \<open>upload_image_to_shopify\<close>: a URL is passed through, an existing local file is
  uploaded; the result is the image reference, if any.  Every exception of the upload is
  caught (line 121).
\<close>

definition upload_image_to_shopify :: "string \<Rightarrow> world \<Rightarrow> string option \<times> world" where
  "upload_image_to_shopify image_path0 w =
     (if image_path0 = [] then (None, w)
      else
        let image_path = strip image_path0 in
        if startswith image_path ''http://'' \<or> startswith image_path ''https://''
        then (Some image_path, w)
        else
          (case fs w image_path of
             None \<Rightarrow> (None, w)
           | Some f \<Rightarrow>
               (case fi_b64 f of
                  None \<Rightarrow> (None, w)
                | Some file_base64 \<Rightarrow>
                    (let mime_type =
                           (case map_of mime_type_map (lower (fi_suffix f)) of
                              None \<Rightarrow> ''image/jpeg'' | Some m \<Rightarrow> m)
                     in case run_graphql_query
                               (M_fileCreate (''data:'' @ mime_type @ '';base64,'' @ file_base64)
                                  (fi_name f)) w of
                          (Inl e, w1) \<Rightarrow> (None, w1)
                        | (Inr data, w1) \<Rightarrow>
                            (case data of
                               Some (D_fileCreate (Some r)) \<Rightarrow>
                                 if userErrors r \<noteq> [] then (None, w1)
                                 else (case result r of
                                         Some (Some image_id # _) \<Rightarrow> (Some image_id, w1)
                                       | _ \<Rightarrow> (None, w1))
                             | _ \<Rightarrow> (None, w1))))))"

text \<open>The loop of \<open>add_images_to_product\<close> that collects the image references.\<close>

fun upload_all :: "string list \<Rightarrow> string list \<Rightarrow> world \<Rightarrow> string list \<times> world" where
  "upload_all [] image_ids w = (image_ids, w)"
| "upload_all (path # paths) image_ids w =
     (let (image_id, w1) = upload_image_to_shopify path w
      in upload_all paths
           (if truthy_opt image_id then image_ids @ [the image_id] else image_ids) w1)"

definition add_images_to_product :: "string \<Rightarrow> cell \<Rightarrow> world \<Rightarrow> (error + unit) \<times> world" where
  "add_images_to_product product_id image_paths w =
     (if \<not> truthy image_paths \<or> isna image_paths then (Inr (), w)
      else
        let paths = (case image_paths of
                       CStr s \<Rightarrow> filter (\<lambda>p. p \<noteq> []) (map strip (split_on CHR '','' s))
                     | _ \<Rightarrow> [py_str image_paths])
        in if paths = [] then (Inr (), w)
           else
             let (image_ids, w1) = upload_all paths [] w
             in if image_ids = [] then (Inr (), w1)
                else (case run_graphql_query (M_productUpdateImages product_id image_ids) w1 of
                        (Inl e, w2) \<Rightarrow> (Inl e, w2)
                      | (Inr data, w2) \<Rightarrow> (Inr (), w2)))"

definition create_metafield ::
  "string \<Rightarrow> string \<Rightarrow> string \<Rightarrow> cell \<Rightarrow> string \<Rightarrow> world \<Rightarrow> (error + bool) \<times> world" where
  "create_metafield product_id namespace key val type_name w =
     (case run_graphql_query
             (M_metafieldsSet product_id namespace key (py_str val) type_name) w of
        (Inl e, w1) \<Rightarrow> (Inl e, w1)
      | (Inr data, w1) \<Rightarrow>
          (case data of
             Some (D_metafieldsSet (Some r)) \<Rightarrow> (Inr (userErrors r = []), w1)
           | _ \<Rightarrow> (Inr False, w1)))"

text \<open>The body of the loop of \<open>add_metafields_to_product\<close> for one column.\<close>

definition metafield_step :: "string \<Rightarrow> row \<Rightarrow> string \<Rightarrow> world \<Rightarrow> (error + unit) \<times> world" where
  "metafield_step product_id row_data col w =
     (let val = row_get row_data col CNaN in
      if isna val \<or> strip (py_str val) = [] then (Inr (), w)
      else
        (case split_max CHR ''_'' 2 (replace ''metafield_'' [] col) of
           namespace # key # rest \<Rightarrow>
             (case create_metafield product_id namespace key val
                     (case rest of [] \<Rightarrow> ''single_line_text_field'' | type_name # _ \<Rightarrow> type_name)
                     w of
                (Inl e, w1) \<Rightarrow> (Inl e, w1)
              | (Inr created, w1) \<Rightarrow> (Inr (), w1))
         | _ \<Rightarrow> (Inr (), w)))"

fun metafield_loop :: "string \<Rightarrow> row \<Rightarrow> string list \<Rightarrow> world \<Rightarrow> (error + unit) \<times> world" where
  "metafield_loop product_id row_data [] w = (Inr (), w)"
| "metafield_loop product_id row_data (col # cols) w =
     (case metafield_step product_id row_data col w of
        (Inl e, w1) \<Rightarrow> (Inl e, w1)
      | (Inr _, w1) \<Rightarrow> metafield_loop product_id row_data cols w1)"

definition add_metafields_to_product :: "string \<Rightarrow> row \<Rightarrow> world \<Rightarrow> (error + unit) \<times> world" where
  "add_metafields_to_product product_id row_data w =
     metafield_loop product_id row_data
       (filter (\<lambda>col. startswith col ''metafield_'') (map fst row_data)) w"

section \<open>Looking a product up by its handle\<close>

text \<open>
  The loop of \<open>check_product_exists\<close> over the variants: the map from trimmed SKU to
  variant and the default variant, built together.
\<close>

fun lookup_loop ::
  "bool \<Rightarrow> nat \<Rightarrow> variant_node list \<Rightarrow> (string \<rightharpoonup> string) \<times> string option
     \<Rightarrow> (string \<rightharpoonup> string) \<times> string option" where
  "lookup_loop has_options n [] acc = acc"
| "lookup_loop has_options n (v # vs) (variants, default_variant_id) =
     lookup_loop has_options n vs
       (if truthy_opt (vn_sku v) then variants(strip (the (vn_sku v)) \<mapsto> vn_id v) else variants,
        if \<not> has_options \<and> n = 1 then Some (vn_id v)
        else if vn_title v = ''Default Title'' \<and> \<not> has_options then Some (vn_id v)
        else default_variant_id)"

definition resolve ::
  "product_lookup \<Rightarrow> string option \<times> (string \<rightharpoonup> string) \<times> string list \<times> string option" where
  "resolve product_data =
     (let existing_options = pl_options product_data;
          variants_list = pl_variants product_data;
          has_options = (length existing_options > 0);
          (variants, default_variant_id) =
            lookup_loop has_options (length variants_list) variants_list (Map.empty, None)
      in (Some (pl_id product_data), variants, existing_options, default_variant_id))"

definition check_product_exists ::
  "string \<Rightarrow> world
     \<Rightarrow> (error + string option \<times> (string \<rightharpoonup> string) \<times> string list \<times> string option) \<times> world"
  where
  "check_product_exists handle w =
     (case run_graphql_query (Q_productByHandle handle) w of
        (Inl e, w1) \<Rightarrow> (Inl e, w1)
      | (Inr data, w1) \<Rightarrow>
          (case data of
             Some (D_productByHandle (Some product_data)) \<Rightarrow> (Inr (resolve product_data), w1)
           | _ \<Rightarrow> (Inr (None, Map.empty, [], None), w1)))"

section \<open>Publishing, options, SKUs\<close>

definition publish_product_to_sales_channel :: "string \<Rightarrow> world \<Rightarrow> (error + unit) \<times> world" where
  "publish_product_to_sales_channel product_id w =
     (case run_graphql_query Q_getPublications w of
        (Inl e, w1) \<Rightarrow> (Inl e, w1)
      | (Inr data, w1) \<Rightarrow>
          (case data of
             Some (D_publications (Some edges)) \<Rightarrow>
               (case find (\<lambda>(pid, name). name = ''Online Store'') edges of
                  None \<Rightarrow> (Inr (), w1)
                | Some (online_store_publication_id, _) \<Rightarrow>
                    if online_store_publication_id = [] then (Inr (), w1)
                    else (case run_graphql_query
                                 (M_publishablePublish product_id online_store_publication_id)
                                 w1 of
                            (Inl e, w2) \<Rightarrow> (Inl e, w2)
                          | (Inr publish_data, w2) \<Rightarrow> (Inr (), w2)))
           | _ \<Rightarrow> (Inr (), w1)))"

definition ensure_product_options_exist ::
  "string \<Rightarrow> string \<Rightarrow> string list \<Rightarrow> world \<Rightarrow> (error + bool) \<times> world" where
  "ensure_product_options_exist product_id option_name option_values w =
     (if option_name = [] \<or> option_values = [] then (Inr True, w)
      else
        (case run_graphql_query (Q_getProduct product_id) w of
           (Inl e, w1) \<Rightarrow> (Inl e, w1)
         | (Inr data, w1) \<Rightarrow>
             (let existing_option_names =
                    (case data of Some (D_productOptions (Some names)) \<Rightarrow> names | _ \<Rightarrow> [])
              in if option_name \<notin> set existing_option_names
                 then
                   (case run_graphql_query
                           (M_productOptionsCreate product_id option_name
                              (unique option_values)) w1 of
                      (Inl e, w2) \<Rightarrow> (Inl e, w2)
                    | (Inr options_data, w2) \<Rightarrow>
                        (case options_data of
                           Some (D_productOptionsCreate (Some r)) \<Rightarrow>
                             (Inr (userErrors r = []), w2)
                         | _ \<Rightarrow> (Inr False, w2)))
                 else (Inr True, w1))))"

definition update_variant_sku_individual ::
  "string \<Rightarrow> string \<Rightarrow> world \<Rightarrow> (error + bool) \<times> world" where
  "update_variant_sku_individual inventory_item_id sku w =
     (if inventory_item_id = [] then (Inr False, w)
      else
        (case run_graphql_query (M_inventoryItemUpdate inventory_item_id sku) w of
           (Inl e, w1) \<Rightarrow> (Inl e, w1)
         | (Inr data, w1) \<Rightarrow>
             (case data of
                Some (D_inventoryItemUpdate (Some r)) \<Rightarrow> (Inr (result r \<noteq> None), w1)
              | _ \<Rightarrow> (Inr False, w1))))"

definition update_variant_sku :: "string \<Rightarrow> string \<Rightarrow> world \<Rightarrow> (error + bool) \<times> world" where
  "update_variant_sku variant_id sku w =
     (case run_graphql_query (Q_getVariant variant_id) w of
        (Inl e, w1) \<Rightarrow> (Inl e, w1)
      | (Inr data, w1) \<Rightarrow>
          (case data of
             Some (D_productVariant (Some (Some inventory_item_id))) \<Rightarrow>
               update_variant_sku_individual inventory_item_id sku w1
           | _ \<Rightarrow> (Inr False, w1)))"

definition update_variant :: "string \<Rightarrow> row \<Rightarrow> world \<Rightarrow> (error + unit) \<times> world" where
  "update_variant variant_id row_data w =
     (case run_graphql_query
             (M_productVariantsBulkUpdate None
                [(variant_id, py_str (row_get row_data ''variant_price'' (CStr ''0.00'')))]) w of
        (Inl e, w1) \<Rightarrow> (Inl e, w1)
      | (Inr data, w1) \<Rightarrow>
          (case data of
             Some (D_productVariantsBulkUpdate (Some r)) \<Rightarrow>
               (case result r of
                  Some (_ # _) \<Rightarrow>
                    (let sku = row_get row_data ''variant_sku'' (CStr []) in
                     if truthy sku \<and> \<not> isna sku
                     then (case update_variant_sku variant_id (py_str sku) w1 of
                             (Inl e, w2) \<Rightarrow> (Inl e, w2)
                           | (Inr updated, w2) \<Rightarrow> (Inr (), w2))
                     else (Inr (), w1))
                | _ \<Rightarrow> (Inr (), w1))
           | _ \<Rightarrow> (Inr (), w1)))"

definition create_variant ::
  "string \<Rightarrow> row \<Rightarrow> string option \<Rightarrow> string option \<Rightarrow> world \<Rightarrow> (error + unit) \<times> world" where
  "create_variant product_id row_data option_name default_variant_id w =
     (if \<not> truthy_opt option_name \<and> truthy_opt default_variant_id
      then update_variant (the default_variant_id) row_data w
      else
        (case (if truthy_opt option_name
                  \<and> \<not> isna (row_get row_data ''variant_option1_value'' (CStr []))
               then (case row_item row_data ''variant_option1_value'' of
                       Inl e \<Rightarrow> Inl e
                     | Inr c \<Rightarrow> Inr (Some (py_str c, the option_name)))
               else Inr None) of
           Inl e \<Rightarrow> (Inl e, w)
         | Inr option_values \<Rightarrow>
             (case run_graphql_query
                     (M_productVariantsBulkCreate product_id
                        (py_str (row_get row_data ''variant_price'' (CStr ''0.00'')))
                        option_values) w of
                (Inl e, w1) \<Rightarrow> (Inl e, w1)
              | (Inr data, w1) \<Rightarrow>
                  (case data of
                     Some (D_productVariantsBulkCreate (Some r)) \<Rightarrow>
                       (case result r of
                          Some (variant_id # _) \<Rightarrow>
                            (let sku = row_get row_data ''variant_sku'' (CStr []) in
                             if truthy sku \<and> \<not> isna sku
                             then (case update_variant_sku variant_id (py_str sku)
                                          (sleep 2 w1) of
                                     (Inl e, w2) \<Rightarrow> (Inl e, w2)
                                   | (Inr updated, w2) \<Rightarrow> (Inr (), w2))
                             else (Inr (), w1))
                        | _ \<Rightarrow> (Inr (), w1))
                   | _ \<Rightarrow> (Inr (), w1)))))"
section \<open>Fields of a group taken from its rows\<close>

text \<open>
  The product input built by \<open>create_product_with_variants\<close> and by
  \<open>update_product\<close> from the first row; the title is read first (for the progress line),
  \<^verbatim>\<open>row['handle']\<close> and \<^verbatim>\<open>row['title']\<close> raise when the column is missing.  The handle and
  the title go into the input as the cells they are.
\<close>

definition product_fields :: "row \<Rightarrow> error + product_input" where
  "product_fields main_row =
     (case row_item main_row ''title'' of
        Inl e \<Rightarrow> Inl e
      | Inr title \<Rightarrow>
          (case row_item main_row ''handle'' of
             Inl e \<Rightarrow> Inl e
           | Inr handle \<Rightarrow>
               Inr \<lparr>pi_handle = handle, pi_title = title,
                    pi_descriptionHtml = py_str (row_get main_row ''description'' (CStr [])),
                    pi_vendor = py_str (row_get main_row ''vendor'' (CStr [])),
                    pi_productType = py_str (row_get main_row ''productType'' (CStr [])),
                    pi_tags = filter (\<lambda>tag. tag \<noteq> [])
                                (map strip
                                   (split_on CHR '',''
                                      (py_str (row_get main_row ''tags'' (CStr [])))))\<rparr>))"

text \<open>The option name a group declares (lines 350-352 and 907-909).\<close>

definition declared_option_name :: "row \<Rightarrow> error + string option" where
  "declared_option_name main_row =
     (if \<not> isna (row_get main_row ''variant_option1_name'' (CStr []))
      then (case row_item main_row ''variant_option1_name'' of
              Inl e \<Rightarrow> Inl e
            | Inr c \<Rightarrow> Inr (Some (strip (py_str c))))
      else Inr None)"

text \<open>The option values of the rows of a group (lines 354-355 and 912-913).\<close>

fun option_values_of :: "row list \<Rightarrow> error + string list" where
  "option_values_of [] = Inr []"
| "option_values_of (row # rows) =
     (if \<not> isna (row_get row ''variant_option1_value'' (CStr []))
      then (case row_item row ''variant_option1_value'' of
              Inl e \<Rightarrow> Inl e
            | Inr c \<Rightarrow>
                (case option_values_of rows of
                   Inl e \<Rightarrow> Inl e
                 | Inr vs \<Rightarrow> Inr (py_str c # vs)))
      else option_values_of rows)"

section \<open>Creating a product\<close>

definition created_product_id :: "payload option \<Rightarrow> string option" where
  "created_product_id data =
     (case data of
        Some (D_productCreate (Some r)) \<Rightarrow> result r
      | _ \<Rightarrow> None)"

definition create_option ::
  "string \<Rightarrow> string option \<Rightarrow> string list \<Rightarrow> world \<Rightarrow> (error + unit) \<times> world" where
  "create_option product_id option_name unique_values w =
     (if truthy_opt option_name \<and> unique_values \<noteq> []
      then
        (case run_graphql_query
                (M_productOptionsCreate product_id (the option_name) unique_values) w of
           (Inl e, w1) \<Rightarrow> (Inl e, w1)
         | (Inr options_data, w1) \<Rightarrow>
             (case options_data of
                Some (D_productOptionsCreate (Some r)) \<Rightarrow>
                  if userErrors r \<noteq> [] then (Inr (), w1) else (Inr (), sleep 2 w1)
              | _ \<Rightarrow> (Inr (), w1)))
      else (Inr (), w))"

definition has_inventory_items :: "payload option \<Rightarrow> bool" where
  "has_inventory_items data =
     (case data of
        Some (D_productVariants (Some vs)) \<Rightarrow>
          list_ex (\<lambda>v. truthy_opt (nv_inventoryItem v)) vs
      | _ \<Rightarrow> False)"

text \<open>
  The poll for the inventory items, with \<open>n\<close> attempts left (the source makes three);
  a pause follows every attempt but the last.
\<close>

fun poll_loop ::
  "nat \<Rightarrow> string \<Rightarrow> payload option \<Rightarrow> world \<Rightarrow> (error + payload option) \<times> world" where
  "poll_loop 0 product_id existing_variants_data w = (Inr existing_variants_data, w)"
| "poll_loop (Suc n) product_id existing_variants_data w =
     (case run_graphql_query (Q_getProductVariants product_id) w of
        (Inl e, w1) \<Rightarrow> (Inl e, w1)
      | (Inr data, w1) \<Rightarrow>
          if has_inventory_items data then (Inr data, w1)
          else poll_loop n product_id data (if 0 < n then sleep 2 w1 else w1))"

definition variants_of :: "payload option \<Rightarrow> new_variant list option" where
  "variants_of data = (case data of Some (D_productVariants (Some vs)) \<Rightarrow> Some vs | _ \<Rightarrow> None)"

text \<open>
  The index from option value (as created, and case-folded) to variant, and the map
  from variant to inventory item (lines 441-452).
\<close>

fun index_variants ::
  "new_variant list \<Rightarrow> (string \<rightharpoonup> string) \<times> (string \<rightharpoonup> string)
     \<Rightarrow> (string \<rightharpoonup> string) \<times> (string \<rightharpoonup> string)" where
  "index_variants [] acc = acc"
| "index_variants (v # vs) (variants_map, variant_inventory_map) =
     index_variants vs
       (case nv_selectedOptions v of
          [] \<Rightarrow> variants_map
        | (_, val) # _ \<Rightarrow>
            (let option_value = strip val
             in (variants_map(option_value \<mapsto> nv_id v))(lower option_value \<mapsto> nv_id v)),
        if truthy_opt (nv_inventoryItem v)
        then variant_inventory_map(nv_id v \<mapsto> the (nv_inventoryItem v))
        else variant_inventory_map)"

text \<open>
  Line 472: \<^verbatim>\<open>variants_map.get(option_value) or variants_map.get(option_value.lower())\<close>.
\<close>

definition match_by_option_value :: "(string \<rightharpoonup> string) \<Rightarrow> string \<Rightarrow> string option" where
  "match_by_option_value variants_map option_value =
     (if truthy_opt (variants_map option_value) then variants_map option_value
      else variants_map (lower option_value))"

type_synonym updates = "(string \<times> string) list \<times> (string \<rightharpoonup> string option \<times> string)"

text \<open>Lines 475-484 and 496-506: one more price update, and the SKU to write after it.\<close>

definition queue_update ::
  "string \<Rightarrow> row \<Rightarrow> cell \<Rightarrow> (string \<rightharpoonup> string) \<Rightarrow> updates \<Rightarrow> updates" where
  "queue_update variant_id row sku variant_inventory_map acc =
     (case acc of (variants_to_update, variant_sku_map) \<Rightarrow>
        (variants_to_update
           @ [(variant_id, py_str (row_get row ''variant_price'' (CStr ''0.00'')))],
         variant_sku_map(variant_id \<mapsto>
           (if truthy_opt (variant_inventory_map variant_id)
            then variant_inventory_map variant_id else None,
            py_str sku))))"

text \<open>The body of the loop over the rows of a new product (lines 460-506).\<close>

definition create_row_step ::
  "string option \<Rightarrow> new_variant list option \<Rightarrow> (string \<rightharpoonup> string) \<Rightarrow> (string \<rightharpoonup> string)
     \<Rightarrow> row \<Rightarrow> updates \<Rightarrow> error + updates" where
  "create_row_step option_name existing variants_map variant_inventory_map row acc =
     (let sku = row_get row ''variant_sku'' (CStr []) in
      if \<not> truthy sku \<or> isna sku then Inr acc
      else
        (case (if truthy_opt option_name
                  \<and> \<not> isna (row_get row ''variant_option1_value'' (CStr []))
               then (case row_item row ''variant_option1_value'' of
                       Inl e \<Rightarrow> Inl e
                     | Inr c \<Rightarrow> Inr (Some (strip (py_str c))))
               else Inr None) of
           Inl e \<Rightarrow> Inl e
         | Inr option_value \<Rightarrow>
             (let variant_id =
                    (if truthy_opt option_value
                     then match_by_option_value variants_map (the option_value)
                     else None)
              in if truthy_opt variant_id
                 then Inr (queue_update (the variant_id) row sku variant_inventory_map acc)
                 else if \<not> truthy_opt option_name
                 then (case existing of
                         None \<Rightarrow> Inr acc
                       | Some vs \<Rightarrow>
                           (case find (\<lambda>v. nv_selectedOptions v = []) vs of
                              None \<Rightarrow> Inr acc
                            | Some default_variant \<Rightarrow>
                                Inr (queue_update (nv_id default_variant) row sku
                                       variant_inventory_map acc)))
                 else Inr acc)))"

fun create_row_loop ::
  "string option \<Rightarrow> new_variant list option \<Rightarrow> (string \<rightharpoonup> string) \<Rightarrow> (string \<rightharpoonup> string)
     \<Rightarrow> row list \<Rightarrow> updates \<Rightarrow> error + updates" where
  "create_row_loop option_name existing vm im [] acc = Inr acc"
| "create_row_loop option_name existing vm im (row # rows) acc =
     (case create_row_step option_name existing vm im row acc of
        Inl e \<Rightarrow> Inl e
      | Inr acc' \<Rightarrow> create_row_loop option_name existing vm im rows acc')"

text \<open>The SKU backfill for the variants the bulk update reports (lines 532-543).\<close>

fun sku_backfill ::
  "string list \<Rightarrow> (string \<rightharpoonup> string option \<times> string) \<Rightarrow> world \<Rightarrow> (error + unit) \<times> world"
  where
  "sku_backfill [] variant_sku_map w = (Inr (), w)"
| "sku_backfill (variant_id # updated_variants) variant_sku_map w =
     (case (case variant_sku_map variant_id of
              None \<Rightarrow> (Inr False, w)
            | Some (inventory_item_id, sku) \<Rightarrow>
                if truthy_opt inventory_item_id
                then update_variant_sku_individual (the inventory_item_id) sku w
                else update_variant_sku variant_id sku w) of
        (Inl e, w1) \<Rightarrow> (Inl e, w1)
      | (Inr _, w1) \<Rightarrow> sku_backfill updated_variants variant_sku_map w1)"

definition bulk_update :: "string \<Rightarrow> updates \<Rightarrow> world \<Rightarrow> (error + unit) \<times> world" where
  "bulk_update product_id acc w =
     (case acc of (variants_to_update, variant_sku_map) \<Rightarrow>
        if variants_to_update \<noteq> []
        then
          (case run_graphql_query
                  (M_productVariantsBulkUpdate (Some product_id) variants_to_update) w of
             (Inl e, w1) \<Rightarrow> (Inl e, w1)
           | (Inr update_data, w1) \<Rightarrow>
               (case update_data of
                  Some (D_productVariantsBulkUpdate (Some r)) \<Rightarrow>
                    (case result r of
                       Some (v # vs) \<Rightarrow> sku_backfill (v # vs) variant_sku_map w1
                     | _ \<Rightarrow> (Inr (), w1))
                | _ \<Rightarrow> (Inr (), w1)))
        else (Inr (), w))"

text \<open>Lines 548-551 and 590-593: the images, when the sheet has the column, then the metafields.\<close>

definition attach_assets :: "string \<Rightarrow> row \<Rightarrow> world \<Rightarrow> (error + unit) \<times> world" where
  "attach_assets product_id main_row w =
     (case (if row_has main_row ''images''
            then add_images_to_product product_id (row_get main_row ''images'' CNaN) w
            else (Inr (), w)) of
        (Inl e, w1) \<Rightarrow> (Inl e, w1)
      | (Inr _, w1) \<Rightarrow> add_metafields_to_product product_id main_row w1)"

definition create_product_with_variants ::
  "row list \<Rightarrow> world \<Rightarrow> (error + string option) \<times> world" where
  "create_product_with_variants group_df w =
     (case group_df of
        [] \<Rightarrow> (Inl IndexError, w)
      | main_row # _ \<Rightarrow>
          (case product_fields main_row of
             Inl e \<Rightarrow> (Inl e, w)
           | Inr product_input \<Rightarrow>
               (case run_graphql_query (M_productCreate product_input) w of
                  (Inl e, w1) \<Rightarrow> (Inl e, w1)
                | (Inr data, w1) \<Rightarrow>
                    (case created_product_id data of
                       None \<Rightarrow> (Inr None, w1)
                     | Some product_id \<Rightarrow>
                         (case declared_option_name main_row of
                            Inl e \<Rightarrow> (Inl e, w1)
                          | Inr option_name \<Rightarrow>
                              (case option_values_of group_df of
                                 Inl e \<Rightarrow> (Inl e, w1)
                               | Inr option_values \<Rightarrow>
                                   (case create_option product_id option_name
                                           (unique option_values) w1 of
                                      (Inl e, w2) \<Rightarrow> (Inl e, w2)
                                    | (Inr _, w2) \<Rightarrow>
                                        (case poll_loop 3 product_id None w2 of
                                           (Inl e, w3) \<Rightarrow> (Inl e, w3)
                                         | (Inr existing_variants_data, w3) \<Rightarrow>
     (let existing = variants_of existing_variants_data;
          (variants_map, variant_inventory_map) =
            (case existing of
               None \<Rightarrow> (Map.empty, Map.empty)
             | Some vs \<Rightarrow> index_variants vs (Map.empty, Map.empty))
      in case create_row_loop option_name existing variants_map variant_inventory_map
                group_df ([], Map.empty) of
           Inl e \<Rightarrow> (Inl e, w3)
         | Inr acc \<Rightarrow>
             (case bulk_update product_id acc w3 of
                (Inl e, w4) \<Rightarrow> (Inl e, w4)
              | (Inr _, w4) \<Rightarrow>
                  (case attach_assets product_id main_row w4 of
                     (Inl e, w5) \<Rightarrow> (Inl e, w5)
                   | (Inr _, w5) \<Rightarrow>
                       (case publish_product_to_sales_channel product_id w5 of
                          (Inl e, w6) \<Rightarrow> (Inl e, w6)
                        | (Inr _, w6) \<Rightarrow> (Inr (Some product_id), w6)))))))))))))"

section \<open>Updating a product\<close>

text \<open>Line 587: the core update reports a product.\<close>

definition product_updated :: "payload option \<Rightarrow> bool" where
  "product_updated data =
     (case data of
        Some (D_productUpdate (Some r)) \<Rightarrow> result r \<noteq> None
      | _ \<Rightarrow> False)"

definition update_product :: "string \<Rightarrow> row \<Rightarrow> world \<Rightarrow> (error + unit) \<times> world" where
  "update_product product_id row_data w =
     (case product_fields row_data of
        Inl e \<Rightarrow> (Inl e, w)
      | Inr input_vars \<Rightarrow>
          (case run_graphql_query (M_productUpdate product_id input_vars) w of
             (Inl e, w1) \<Rightarrow> (Inl e, w1)
           | (Inr data, w1) \<Rightarrow>
               if product_updated data then attach_assets product_id row_data w1
               else (Inr (), w1)))"

section \<open>The run over the groups\<close>

text \<open>Lines 907-915 of \<open>main\<close>: the declared option is made to exist.\<close>

definition main_ensure_option ::
  "string \<Rightarrow> row list \<Rightarrow> string option \<Rightarrow> world \<Rightarrow> (error + unit) \<times> world" where
  "main_ensure_option product_id group_df option_name w =
     (if truthy_opt option_name
      then (case option_values_of group_df of
              Inl e \<Rightarrow> (Inl e, w)
            | Inr option_values \<Rightarrow>
                if option_values \<noteq> []
                then (case ensure_product_options_exist product_id (the option_name)
                             option_values w of
                        (Inl e, w1) \<Rightarrow> (Inl e, w1)
                      | (Inr _, w1) \<Rightarrow> (Inr (), w1))
                else (Inr (), w))
      else (Inr (), w))"

text \<open>Lines 917-929 of \<open>main\<close>: the body of the loop over the rows of an existing product.\<close>

definition main_row_step ::
  "string \<Rightarrow> string option \<Rightarrow> string option \<Rightarrow> (string \<rightharpoonup> string) \<Rightarrow> row \<Rightarrow> world
     \<Rightarrow> (error + unit) \<times> world" where
  "main_row_step product_id option_name default_variant_id existing_variants row w =
     (let sku = row_get row ''variant_sku'' (CStr []) in
      if \<not> truthy sku \<or> isna sku then (Inr (), w)
      else
        (case existing_variants (strip (py_str sku)) of
           None \<Rightarrow> create_variant product_id row option_name default_variant_id w
         | Some variant_id \<Rightarrow> update_variant variant_id row w))"

fun main_row_loop ::
  "string \<Rightarrow> string option \<Rightarrow> string option \<Rightarrow> (string \<rightharpoonup> string) \<Rightarrow> row list \<Rightarrow> world
     \<Rightarrow> (error + unit) \<times> world" where
  "main_row_loop product_id option_name default_variant_id existing_variants [] w = (Inr (), w)"
| "main_row_loop product_id option_name default_variant_id existing_variants (row # rows) w =
     (case main_row_step product_id option_name default_variant_id existing_variants row w of
        (Inl e, w1) \<Rightarrow> (Inl e, w1)
      | (Inr _, w1) \<Rightarrow>
          main_row_loop product_id option_name default_variant_id existing_variants rows w1)"

text \<open>
  The body of the loop of \<open>main\<close> over the groups (lines 893-931); a group is a handle
  with its rows, as \<^verbatim>\<open>df.groupby('handle')\<close> yields them.  The handles of the sheet are
  texts, so the key of a group is a string.
\<close>

definition process_group :: "string \<times> row list \<Rightarrow> world \<Rightarrow> (error + unit) \<times> world" where
  "process_group g w =
     (case g of (handle, group_df) \<Rightarrow>
        (case group_df of
           [] \<Rightarrow> (Inl IndexError, w)
         | main_row # _ \<Rightarrow>
             (case check_product_exists handle w of
                (Inl e, w1) \<Rightarrow> (Inl e, w1)
              | (Inr (product_id, existing_variants, existing_options, default_variant_id), w1) \<Rightarrow>
                  (case product_id of
                     None \<Rightarrow>
                       (case create_product_with_variants group_df w1 of
                          (Inl e, w2) \<Rightarrow> (Inl e, w2)
                        | (Inr _, w2) \<Rightarrow> (Inr (), w2))
                   | Some product_id \<Rightarrow>
                       (case update_product product_id main_row w1 of
                          (Inl e, w2) \<Rightarrow> (Inl e, w2)
                        | (Inr _, w2) \<Rightarrow>
                            (case declared_option_name main_row of
                               Inl e \<Rightarrow> (Inl e, w2)
                             | Inr option_name \<Rightarrow>
                                 (case main_ensure_option product_id group_df option_name w2 of
                                    (Inl e, w3) \<Rightarrow> (Inl e, w3)
                                  | (Inr _, w3) \<Rightarrow>
                                      main_row_loop product_id option_name default_variant_id
                                        existing_variants group_df w3)))))))"

text \<open>
  The loop of \<open>main\<close>: an exception of a group leaves the loop, the groups after it are
  not processed.
\<close>

fun run_groups :: "(string \<times> row list) list \<Rightarrow> world \<Rightarrow> (error + unit) \<times> world" where
  "run_groups [] w = (Inr (), w)"
| "run_groups (g # gs) w =
     (case process_group g w of
        (Inl e, w1) \<Rightarrow> (Inl e, w1)
      | (Inr _, w1) \<Rightarrow> run_groups gs w1)"

text \<open>
  \<open>main\<close>, from the columns of the sheet and its groups: nothing is sent when a required
  column is missing, and an exception ends the run (it is caught and reported).
\<close>

definition main :: "string list \<Rightarrow> (string \<times> row list) list \<Rightarrow> world \<Rightarrow> error option \<times> world" where
  "main columns grouped w =
     (if filter (\<lambda>col. col \<notin> set columns) [''handle'', ''title'', ''variant_sku'', ''variant_price'']
           \<noteq> []
      then (None, w)
      else (case run_groups grouped w of
              (Inl e, w1) \<Rightarrow> (Some e, w1)
            | (Inr _, w1) \<Rightarrow> (None, w1)))"

section \<open>Observations on the trace\<close>

text \<open>The requests of a trace, in the order they were sent.\<close>

fun requests_of :: "event list \<Rightarrow> request list" where
  "requests_of [] = []"
| "requests_of (Request r # es) = r # requests_of es"
| "requests_of (Sleep n # es) = requests_of es"





section \<open>Properties\<close>

subsection \<open>Auxiliary facts\<close>



lemma lookup_loop_sku:
  "fst (lookup_loop ho n vs (m, d)) k =
     (case filter (\<lambda>v. truthy_opt (vn_sku v) \<and> strip (the (vn_sku v)) = k) vs of
        [] \<Rightarrow> m k
      | x # xs \<Rightarrow> Some (vn_id (last (x # xs))))"
proof (induction vs arbitrary: m d)
  case Nil
  then show ?case by simp
next
  case (Cons v vs)
  show ?case
    by (simp add: Cons.IH split: list.splits)
qed

lemma lookup_loop_default:
  "snd (lookup_loop ho n vs (m, d)) =
     (if ho then d
      else if n = 1 then (if vs = [] then d else Some (vn_id (last vs)))
      else (case filter (\<lambda>v. vn_title v = ''Default Title'') vs of
              [] \<Rightarrow> d
            | x # xs \<Rightarrow> Some (vn_id (last (x # xs)))))"
proof (induction vs arbitrary: m d)
  case Nil
  then show ?case by simp
next
  case (Cons v vs)
  show ?case
    by (simp add: Cons.IH split: list.splits)
qed

lemma filter_Cons_ex: "filter P xs = y # ys \<Longrightarrow> \<exists>v \<in> set xs. P v"
proof -
  assume "filter P xs = y # ys"
  then have "y \<in> set (filter P xs)" by simp
  then show ?thesis by auto
qed





subsection \<open>The dispatcher\<close>

text \<open>
  C6.  A request whose response is successful (no top-level error list) and reports an
  available budget below 200 is followed by a sleep of 5 before the payload is returned;
  with a budget of 200 or more, or without telemetry, the payload is returned without a
  sleep.  This is so for every request that is sent; a request whose body cannot be
  encoded is not sent and takes no response.
\<close>

theorem dispatcher_cooldown:
  assumes "script w = Response e # rest" and "\<not> env_errors e"
  shows "(encode_failure (strict_json w) req = None \<longrightarrow>
            (env_cost e = Some (Some n) \<and> n < 200 \<longrightarrow>
               run_graphql_query req w
                 = (Inr (env_data e),
                    w\<lparr>script := rest, trace := trace w @ [Request req, Sleep 5]\<rparr>))
          \<and> (env_cost e = None \<or> env_cost e = Some None
               \<or> (env_cost e = Some (Some n) \<and> 200 \<le> n) \<longrightarrow>
               run_graphql_query req w
                 = (Inr (env_data e), w\<lparr>script := rest, trace := trace w @ [Request req]\<rparr>)))
       \<and> (encode_failure (strict_json w) req = Some NotSerializable \<longrightarrow>
            run_graphql_query req w = (Inl TypeError, w))
       \<and> (encode_failure (strict_json w) req = Some OutOfRange \<longrightarrow>
            run_graphql_query req w = (Inr None, w))"
  using assms by (auto simp: run_graphql_query_def exchange_def sleep_def Let_def)

theorem dispatcher_cooldown_witness:
  "run_graphql_query Q_getPublications
     \<lparr>script = [Response \<lparr>env_errors = False, env_cost = Some (Some 150),
                           env_data = Some (D_publications None)\<rparr>],
      trace = [], fs = Map.empty, strict_json = True\<rparr>
     = (Inr (Some (D_publications None)),
        \<lparr>script = [], trace = [Request Q_getPublications, Sleep 5], fs = Map.empty,
         strict_json = True\<rparr>)
   \<and> run_graphql_query Q_getPublications
     \<lparr>script = [Response \<lparr>env_errors = False, env_cost = Some (Some 200),
                           env_data = Some (D_publications None)\<rparr>],
      trace = [], fs = Map.empty, strict_json = True\<rparr>
     = (Inr (Some (D_publications None)),
        \<lparr>script = [], trace = [Request Q_getPublications], fs = Map.empty,
         strict_json = True\<rparr>)"
  using dispatcher_cooldown
          [of "\<lparr>script = [Response \<lparr>env_errors = False, env_cost = Some (Some 150),
                                      env_data = Some (D_publications None)\<rparr>],
                 trace = [], fs = Map.empty, strict_json = True\<rparr>"
              "\<lparr>env_errors = False, env_cost = Some (Some 150),
                 env_data = Some (D_publications None)\<rparr>" "[]" Q_getPublications 150]
        dispatcher_cooldown
          [of "\<lparr>script = [Response \<lparr>env_errors = False, env_cost = Some (Some 200),
                                      env_data = Some (D_publications None)\<rparr>],
                 trace = [], fs = Map.empty, strict_json = True\<rparr>"
              "\<lparr>env_errors = False, env_cost = Some (Some 200),
                 env_data = Some (D_publications None)\<rparr>" "[]" Q_getPublications 200]
  by (simp add: encode_failure_def)

subsection \<open>Matching\<close>

text \<open>
  C3.  For a row that carries a SKU, the step of the update path takes the variant that
  the lookup filed under the row's SKU: it updates a fetched variant exactly when some
  fetched variant with a SKU has the same SKU as the row after both are trimmed, letters
  compared as they are (the last such variant is updated); when there is none, the row
  goes to \<open>create_variant\<close>.
\<close>

theorem sku_match_trimmed_exact:
  assumes "map_of row ''variant_sku'' = Some sku" and "truthy sku" and "\<not> isna sku"
  shows "main_row_step product_id option_name default_variant_id
           (fst (snd (resolve product_data))) row w
         = (case filter (\<lambda>v. truthy_opt (vn_sku v)
                               \<and> strip (the (vn_sku v)) = strip (py_str sku))
                   (pl_variants product_data) of
              [] \<Rightarrow> create_variant product_id row option_name default_variant_id w
            | x # xs \<Rightarrow> update_variant (vn_id (last (x # xs))) row w)"
proof -
  have m: "fst (snd (resolve product_data))
          = fst (lookup_loop (length (pl_options product_data) > 0)
                   (length (pl_variants product_data)) (pl_variants product_data)
                   (Map.empty, None))"
    by (simp add: resolve_def Let_def split_beta)
  have g: "row_get row ''variant_sku'' (CStr []) = sku"
    using assms(1) by (simp add: row_get_def)
  show ?thesis
    unfolding m lookup_loop_sku main_row_step_def g Let_def
    using assms(2,3) by (simp split: list.splits)
qed

theorem sku_match_trimmed_exact_witness:
  "requests_of (trace (snd (main_row_step ''p1'' (Some ''Size'') None
     (fst (snd (resolve \<lparr>pl_id = ''p1'', pl_options = [''Size''],
                          pl_variants = [\<lparr>vn_id = ''v1'', vn_sku = Some ''ABC-1'',
                                           vn_title = ''Small''\<rparr>]\<rparr>)))
     [(''variant_sku'', CStr ''  ABC-1  ''), (''variant_price'', CStr ''10''),
      (''variant_option1_value'', CStr ''Small'')]
     \<lparr>script = [], trace = [], fs = Map.empty, strict_json = True\<rparr>)))
     = [M_productVariantsBulkUpdate None [(''v1'', ''10'')]]
   \<and> requests_of (trace (snd (main_row_step ''p1'' (Some ''Size'') None
     (fst (snd (resolve \<lparr>pl_id = ''p1'', pl_options = [''Size''],
                          pl_variants = [\<lparr>vn_id = ''v1'', vn_sku = Some ''ABC-1'',
                                           vn_title = ''Small''\<rparr>]\<rparr>)))
     [(''variant_sku'', CStr ''abc-1''), (''variant_price'', CStr ''10''),
      (''variant_option1_value'', CStr ''Small'')]
     \<lparr>script = [], trace = [], fs = Map.empty, strict_json = True\<rparr>)))
     = [M_productVariantsBulkCreate ''p1'' ''10'' (Some (''Small'', ''Size''))]"
proof -
  let ?pd = "\<lparr>pl_id = ''p1'', pl_options = [''Size''],
               pl_variants = [\<lparr>vn_id = ''v1'', vn_sku = Some ''ABC-1'',
                                vn_title = ''Small''\<rparr>]\<rparr>"
  let ?a = "[(''variant_sku'', CStr ''  ABC-1  ''), (''variant_price'', CStr ''10''),
             (''variant_option1_value'', CStr ''Small'')]"
  let ?b = "[(''variant_sku'', CStr ''abc-1''), (''variant_price'', CStr ''10''),
             (''variant_option1_value'', CStr ''Small'')]"
  have a: "map_of ?a ''variant_sku'' = Some (CStr ''  ABC-1  '')"
          "truthy (CStr ''  ABC-1  '')" "\<not> isna (CStr ''  ABC-1  '')"
    by (simp_all add: isna_def)
  have b: "map_of ?b ''variant_sku'' = Some (CStr ''abc-1'')"
          "truthy (CStr ''abc-1'')" "\<not> isna (CStr ''abc-1'')"
    by (simp_all add: isna_def)
  show ?thesis
    using sku_match_trimmed_exact [OF a, where product_id = "''p1''"
            and option_name = "Some ''Size''" and default_variant_id = None
            and product_data = ?pd
            and w = "\<lparr>script = [], trace = [], fs = Map.empty, strict_json = True\<rparr>"]
          sku_match_trimmed_exact [OF b, where product_id = "''p1''"
            and option_name = "Some ''Size''" and default_variant_id = None
            and product_data = ?pd
            and w = "\<lparr>script = [], trace = [], fs = Map.empty, strict_json = True\<rparr>"]
    by (simp add: strip_def is_space_def update_variant_def create_variant_def
          run_graphql_query_def encode_failure_def exchange_def row_get_def row_item_def
          isna_def Let_def)
qed



subsection \<open>The default variant\<close>

text \<open>
  C7, as the code has it.  The lookup yields a default variant exactly when the product
  declares no option and either has exactly one variant or has at least one variant
  titled \<open>Default Title\<close>; it is that one variant, or the last variant with that title.
\<close>

theorem default_variant_rule:
  "snd (snd (snd (resolve product_data)))
     = (if pl_options product_data \<noteq> [] then None
        else if length (pl_variants product_data) = 1
        then Some (vn_id (last (pl_variants product_data)))
        else (case filter (\<lambda>v. vn_title v = ''Default Title'') (pl_variants product_data) of
                [] \<Rightarrow> None
              | x # xs \<Rightarrow> Some (vn_id (last (x # xs)))))
   \<and> (snd (snd (snd (resolve product_data))) \<noteq> None
        \<longleftrightarrow> pl_options product_data = []
            \<and> (length (pl_variants product_data) = 1
               \<or> (\<exists>v \<in> set (pl_variants product_data). vn_title v = ''Default Title'')))"
proof -
  have eq: "snd (snd (snd (resolve product_data)))
     = (if pl_options product_data \<noteq> [] then None
        else if length (pl_variants product_data) = 1
        then Some (vn_id (last (pl_variants product_data)))
        else (case filter (\<lambda>v. vn_title v = ''Default Title'') (pl_variants product_data) of
                [] \<Rightarrow> None
              | x # xs \<Rightarrow> Some (vn_id (last (x # xs)))))"
    by (auto simp: resolve_def Let_def split_beta lookup_loop_default)
  show ?thesis
    unfolding eq
    by (auto simp: filter_empty_conv split: list.splits dest: filter_Cons_ex)
qed

theorem default_variant_rule_witness:
  "snd (snd (snd (resolve \<lparr>pl_id = ''p1'', pl_options = [],
        pl_variants = [\<lparr>vn_id = ''v1'', vn_sku = Some ''A'', vn_title = ''Default Title''\<rparr>,
                       \<lparr>vn_id = ''v2'', vn_sku = None, vn_title = ''Other''\<rparr>]\<rparr>)))
     = Some ''v1''"
  using default_variant_rule
          [of "\<lparr>pl_id = ''p1'', pl_options = [],
                 pl_variants = [\<lparr>vn_id = ''v1'', vn_sku = Some ''A'',
                                  vn_title = ''Default Title''\<rparr>,
                                \<lparr>vn_id = ''v2'', vn_sku = None, vn_title = ''Other''\<rparr>]\<rparr>"]
  by simp

text \<open>
  C7, as stated, fails: a product without options whose two variants are both titled
  \<open>Default Title\<close> gets the second of them as its default variant.
\<close>

theorem default_variant_two_titled_counterexample:
  "snd (snd (snd (resolve \<lparr>pl_id = ''p1'', pl_options = [],
        pl_variants = [\<lparr>vn_id = ''v1'', vn_sku = None, vn_title = ''Default Title''\<rparr>,
                       \<lparr>vn_id = ''v2'', vn_sku = None, vn_title = ''Default Title''\<rparr>]\<rparr>)))
     = Some ''v2''"
  by (simp add: resolve_def)
subsection \<open>Rows that are left out\<close>

text \<open>
  C5.  A row whose \<open>variant_sku\<close> is absent, empty or NaN is skipped on both paths: on
  the create path it adds nothing to the price updates and the SKUs to write, on the
  update path it sends no request at all, and the loops go on with the next row.
\<close>

theorem row_without_sku_skipped:
  assumes "map_of row ''variant_sku'' = None \<or> map_of row ''variant_sku'' = Some (CStr [])
             \<or> map_of row ''variant_sku'' = Some CNaN"
  shows "create_row_step option_name existing vm im row acc = Inr acc
       \<and> create_row_loop option_name existing vm im (row # rows) acc
           = create_row_loop option_name existing vm im rows acc
       \<and> main_row_step product_id option_name default_variant_id existing_variants row w
           = (Inr (), w)
       \<and> main_row_loop product_id option_name default_variant_id existing_variants
             (row # rows) w
           = main_row_loop product_id option_name default_variant_id existing_variants rows w"
proof -
  have sku: "\<not> truthy (row_get row ''variant_sku'' (CStr []))
               \<or> isna (row_get row ''variant_sku'' (CStr []))"
    using assms by (auto simp: row_get_def isna_def)
  have c: "create_row_step option_name existing vm im row acc = Inr acc"
    using sku by (auto simp: create_row_step_def Let_def)
  have m: "main_row_step product_id option_name default_variant_id existing_variants row w
             = (Inr (), w)"
    using sku by (auto simp: main_row_step_def Let_def)
  show ?thesis
    by (simp add: c m)
qed

theorem row_without_sku_skipped_witness:
  "create_row_step (Some ''Size'') None Map.empty Map.empty
     [(''handle'', CStr ''h''), (''variant_sku'', CNaN), (''variant_price'', CStr ''10'')]
     ([], Map.empty) = Inr ([], Map.empty)
   \<and> main_row_step ''p1'' None (Some ''v1'') Map.empty
       [(''handle'', CStr ''h''), (''variant_sku'', CNaN), (''variant_price'', CStr ''10'')]
       \<lparr>script = [], trace = [], fs = Map.empty, strict_json = True\<rparr>
     = (Inr (), \<lparr>script = [], trace = [], fs = Map.empty, strict_json = True\<rparr>)"
proof -
  have h: "map_of [(''handle'', CStr ''h''), (''variant_sku'', CNaN),
                   (''variant_price'', CStr ''10'')] ''variant_sku'' = None
           \<or> map_of [(''handle'', CStr ''h''), (''variant_sku'', CNaN),
                   (''variant_price'', CStr ''10'')] ''variant_sku'' = Some (CStr [])
           \<or> map_of [(''handle'', CStr ''h''), (''variant_sku'', CNaN),
                   (''variant_price'', CStr ''10'')] ''variant_sku'' = Some CNaN"
    by simp
  show ?thesis
    using row_without_sku_skipped [OF h, where option_name = "Some ''Size''"
            and existing = None and vm = Map.empty and im = Map.empty
            and acc = "([], Map.empty)"]
          row_without_sku_skipped [OF h, where product_id = "''p1''" and option_name = None
            and default_variant_id = "Some ''v1''" and existing_variants = Map.empty
            and w = "\<lparr>script = [], trace = [], fs = Map.empty, strict_json = True\<rparr>"]
    by simp
qed

text \<open>
  C10.  On the create path of a group that declares an option name, a row whose option
  value is missing (NaN), empty after trimming, or found neither as it is nor case-folded
  in the index of the created variants, leaves the price updates and the SKUs to write as
  they were, whatever variants exist: the fallback to a default variant is not taken.
\<close>

theorem unmatched_option_row_excluded:
  assumes "truthy_opt option_name"
      and "map_of row ''variant_option1_value'' = Some c"
      and "isna c \<or> strip (py_str c) = []
             \<or> \<not> truthy_opt (match_by_option_value vm (strip (py_str c)))"
  shows "create_row_step option_name existing vm im row acc = Inr acc
       \<and> create_row_loop option_name existing vm im (row # rows) acc
           = create_row_loop option_name existing vm im rows acc"
proof -
  have "create_row_step option_name existing vm im row acc = Inr acc"
    using assms by (auto simp: create_row_step_def Let_def row_get_def row_item_def)
  then show ?thesis by simp
qed

theorem unmatched_option_row_excluded_witness:
  "create_row_step (Some ''Size'')
     (Some [\<lparr>nv_id = ''v0'', nv_inventoryItem = Some ''i0'', nv_selectedOptions = []\<rparr>,
            \<lparr>nv_id = ''v1'', nv_inventoryItem = Some ''i1'',
              nv_selectedOptions = [(''Size'', ''Small'')]\<rparr>])
     (fst (index_variants
             [\<lparr>nv_id = ''v0'', nv_inventoryItem = Some ''i0'', nv_selectedOptions = []\<rparr>,
              \<lparr>nv_id = ''v1'', nv_inventoryItem = Some ''i1'',
                nv_selectedOptions = [(''Size'', ''Small'')]\<rparr>] (Map.empty, Map.empty)))
     Map.empty
     [(''variant_sku'', CStr ''SKU-9''), (''variant_price'', CStr ''10''),
      (''variant_option1_value'', CStr ''Large'')]
     ([], Map.empty) = Inr ([], Map.empty)"
proof -
  have h1: "truthy_opt (Some ''Size'')" by simp
  have h2: "map_of [(''variant_sku'', CStr ''SKU-9''), (''variant_price'', CStr ''10''),
                    (''variant_option1_value'', CStr ''Large'')] ''variant_option1_value''
              = Some (CStr ''Large'')"
    by simp
  have h3: "isna (CStr ''Large'') \<or> strip (py_str (CStr ''Large'')) = []
            \<or> \<not> truthy_opt (match_by_option_value
                  (fst (index_variants
                     [\<lparr>nv_id = ''v0'', nv_inventoryItem = Some ''i0'', nv_selectedOptions = []\<rparr>,
                      \<lparr>nv_id = ''v1'', nv_inventoryItem = Some ''i1'',
                        nv_selectedOptions = [(''Size'', ''Small'')]\<rparr>] (Map.empty, Map.empty)))
                  (strip (py_str (CStr ''Large''))))"
    by (simp add: match_by_option_value_def strip_def is_space_def lower_def lower_char_def
          capitals_def smalls_def)
  show ?thesis
    using unmatched_option_row_excluded [OF h1 h2 h3] by simp
qed

subsection \<open>Metafield columns\<close>

lemma metafield_example:
  "add_metafields_to_product ''p1''
     [(''title'', CStr ''T''), (''metafield_custom_brand_single_line_text_field'', CStr ''Acme'')]
     \<lparr>script = [], trace = [], fs = Map.empty, strict_json = True\<rparr>
   = (Inr (),
      \<lparr>script = [],
       trace = [Request (M_metafieldsSet ''p1'' ''custom'' ''brand'' ''Acme''
                           ''single_line_text_field'')],
       fs = Map.empty, strict_json = True\<rparr>)"
  by (simp add: add_metafields_to_product_def startswith_def metafield_step_def row_get_def
        isna_def strip_def is_space_def create_metafield_def run_graphql_query_def
        encode_failure_def exchange_def Let_def
        numeral_2_eq_2)

text \<open>
  C8.  The column \<open>metafield_custom_metafield_text\<close> has, after the prefix, the
  segments \<open>custom\<close>, \<open>metafield\<close> and \<open>text\<close>; the code removes every occurrence of
  \<open>metafield_\<close> and upserts namespace \<open>custom\<close>, key \<open>text\<close> with the default type.
\<close>

theorem metafield_name_inner_prefix_removed:
  "add_metafields_to_product ''p1''
     [(''title'', CStr ''T''), (''metafield_custom_metafield_text'', CStr ''Acme'')]
     \<lparr>script = [], trace = [], fs = Map.empty, strict_json = True\<rparr>
   = (Inr (),
      \<lparr>script = [],
       trace = [Request (M_metafieldsSet ''p1'' ''custom'' ''text'' ''Acme''
                           ''single_line_text_field'')],
       fs = Map.empty, strict_json = True\<rparr>)"
  by (simp add: add_metafields_to_product_def startswith_def metafield_step_def row_get_def
        isna_def strip_def is_space_def create_metafield_def run_graphql_query_def
        encode_failure_def exchange_def Let_def
        numeral_2_eq_2)
subsection \<open>Failures of a group\<close>

lemma requests_of_append: "requests_of (xs @ ys) = requests_of xs @ requests_of ys"
  by (induction xs rule: requests_of.induct) auto

lemma requests_of_exchange:
  "requests_of (trace (snd (exchange req w))) = requests_of (trace w) @ [req]"
  by (auto simp: exchange_def Let_def sleep_def requests_of_append
           split: list.splits outcome.splits option.splits)

lemma run_graphql_query_plain:
  assumes "request_cells req = []"
  shows "run_graphql_query req w = (Inr (fst (exchange req w)), snd (exchange req w))"
  using assms by (simp add: run_graphql_query_def encode_failure_def split_beta)

lemma requests_of_run_graphql_query:
  assumes "run_graphql_query req w = (Inr data, w1)"
  shows "requests_of (trace w1)
           = requests_of (trace w)
               @ (if encode_failure (strict_json w) req = None then [req] else [])"
  using assms requests_of_exchange [of req w]
  by (auto simp: run_graphql_query_def split_beta split: option.splits encode_error.splits)

lemma strict_json_exchange: "strict_json (snd (exchange req w)) = strict_json w"
  by (auto simp: exchange_def Let_def sleep_def
           split: list.splits outcome.splits option.splits)

lemma check_product_exists_world:
  assumes "check_product_exists handle w = (r, w1)"
  shows "w1 = snd (exchange (Q_productByHandle handle) w)"
  using assms
  by (auto simp: check_product_exists_def run_graphql_query_plain
           split: option.splits payload.splits)

text \<open>
  C1.  When the lookup of a group's handle finds no product and the create mutation
  yields no result or no product, the group ends there: after the lookup it has sent the
  create mutation and nothing else (not even that when the library refuses the body),
  and the run goes on with the remaining groups.
\<close>

theorem create_failure_aborts_group_only:
  assumes "check_product_exists handle w
             = (Inr (None, existing_variants, existing_options, default_variant_id), w1)"
      and "product_fields main_row = Inr product_input"
      and "run_graphql_query (M_productCreate product_input) w1 = (Inr data, w2)"
      and "created_product_id data = None"
  shows "process_group (handle, main_row # rows) w = (Inr (), w2)
       \<and> run_groups ((handle, main_row # rows) # gs) w = run_groups gs w2
       \<and> requests_of (trace w2)
           = requests_of (trace w) @ Q_productByHandle handle
               # (if encode_failure (strict_json w) (M_productCreate product_input) = None
                  then [M_productCreate product_input] else [])"
proof -
  have "create_product_with_variants (main_row # rows) w1 = (Inr None, w2)"
    by (simp add: create_product_with_variants_def assms(2,3,4))
  then have g: "process_group (handle, main_row # rows) w = (Inr (), w2)"
    by (simp add: process_group_def assms(1))
  then have run: "run_groups ((handle, main_row # rows) # gs) w = run_groups gs w2"
    by simp
  have w1: "w1 = snd (exchange (Q_productByHandle handle) w)"
    using check_product_exists_world [OF assms(1)] .
  then have "requests_of (trace w1) = requests_of (trace w) @ [Q_productByHandle handle]"
    and "strict_json w1 = strict_json w"
    by (simp_all add: requests_of_exchange strict_json_exchange)
  with requests_of_run_graphql_query [OF assms(3)]
  have "requests_of (trace w2)
           = requests_of (trace w) @ Q_productByHandle handle
               # (if encode_failure (strict_json w) (M_productCreate product_input) = None
                  then [M_productCreate product_input] else [])"
    by simp
  with g run show ?thesis by simp
qed

theorem create_failure_aborts_group_only_witness:
  "requests_of (trace (snd (run_groups
     [(''tee'', [[(''handle'', CStr ''tee''), (''title'', CStr ''Tee''),
                  (''variant_sku'', CStr ''A''), (''variant_price'', CStr ''10'')],
                 [(''handle'', CStr ''tee''), (''title'', CStr ''Tee''),
                  (''variant_sku'', CStr ''A2''), (''variant_price'', CStr ''11'')]]),
      (''zip'', [[(''handle'', CStr ''zip''), (''title'', CStr ''Zip''),
                  (''variant_sku'', CStr ''B''), (''variant_price'', CStr ''12'')]])]
     \<lparr>script = [Response \<lparr>env_errors = False, env_cost = None,
                           env_data = Some (D_productByHandle None)\<rparr>,
                 Response \<lparr>env_errors = False, env_cost = None,
                           env_data = Some (D_productCreate
                                              (Some \<lparr>result = None, userErrors = [''taken'']\<rparr>))\<rparr>],
      trace = [], fs = Map.empty, strict_json = True\<rparr>)))
   = [Q_productByHandle ''tee'',
      M_productCreate \<lparr>pi_handle = CStr ''tee'', pi_title = CStr ''Tee'',
                       pi_descriptionHtml = [], pi_vendor = [], pi_productType = [],
                       pi_tags = []\<rparr>,
      Q_productByHandle ''zip'',
      M_productCreate \<lparr>pi_handle = CStr ''zip'', pi_title = CStr ''Zip'',
                       pi_descriptionHtml = [], pi_vendor = [], pi_productType = [],
                       pi_tags = []\<rparr>]"
proof -
  let ?row = "[(''handle'', CStr ''tee''), (''title'', CStr ''Tee''),
               (''variant_sku'', CStr ''A''), (''variant_price'', CStr ''10'')]"
  let ?row2 = "[(''handle'', CStr ''tee''), (''title'', CStr ''Tee''),
                (''variant_sku'', CStr ''A2''), (''variant_price'', CStr ''11'')]"
  let ?inp = "\<lparr>pi_handle = CStr ''tee'', pi_title = CStr ''Tee'',
                pi_descriptionHtml = [], pi_vendor = [], pi_productType = [],
                pi_tags = []\<rparr>"
  let ?e2 = "Response \<lparr>env_errors = False, env_cost = None,
                        env_data = Some (D_productCreate
                                           (Some \<lparr>result = None, userErrors = [''taken'']\<rparr>))\<rparr>"
  let ?w = "\<lparr>script = [Response \<lparr>env_errors = False, env_cost = None,
                                   env_data = Some (D_productByHandle None)\<rparr>, ?e2],
              trace = [], fs = Map.empty, strict_json = True\<rparr>"
  let ?w1 = "\<lparr>script = [?e2], trace = [Request (Q_productByHandle ''tee'')],
               fs = Map.empty, strict_json = True\<rparr>"
  let ?w2 = "\<lparr>script = [],
               trace = [Request (Q_productByHandle ''tee''), Request (M_productCreate ?inp)],
               fs = Map.empty, strict_json = True\<rparr>"
  have h1: "check_product_exists ''tee'' ?w = (Inr (None, Map.empty, [], None), ?w1)"
    by (simp add: check_product_exists_def run_graphql_query_def encode_failure_def
          exchange_def)
  have h2: "product_fields ?row = Inr ?inp"
    by (simp add: product_fields_def row_item_def row_get_def strip_def)
  have h3: "run_graphql_query (M_productCreate ?inp) ?w1
              = (Inr (Some (D_productCreate (Some \<lparr>result = None, userErrors = [''taken'']\<rparr>))),
                 ?w2)"
    by (simp add: run_graphql_query_def encode_failure_def exchange_def)
  have h4: "created_product_id
              (Some (D_productCreate (Some \<lparr>result = None, userErrors = [''taken'']\<rparr>))) = None"
    by (simp add: created_product_id_def)
  show ?thesis
    using create_failure_aborts_group_only [OF h1 h2 h3 h4, of "[?row2]"
            "[(''zip'', [[(''handle'', CStr ''zip''), (''title'', CStr ''Zip''),
                          (''variant_sku'', CStr ''B''), (''variant_price'', CStr ''12'')]])]"]
    by (simp add: process_group_def check_product_exists_def run_graphql_query_def
          encode_failure_def exchange_def create_product_with_variants_def
          product_fields_def row_item_def row_get_def created_product_id_def strip_def)
qed

text \<open>
  An integer title is no failure of the create mutation in this sense: the body cannot
  be encoded, the dispatcher raises before anything is sent, and the run ends with the
  group.
\<close>

lemma integer_title_ends_run:
  "run_groups
     [(''tee'', [[(''handle'', CStr ''tee''), (''title'', CInt 2024),
                  (''variant_sku'', CStr ''A''), (''variant_price'', CStr ''10'')]]),
      (''zip'', [[(''handle'', CStr ''zip''), (''title'', CStr ''Zip''),
                  (''variant_sku'', CStr ''B''), (''variant_price'', CStr ''12'')]])]
     \<lparr>script = [Response \<lparr>env_errors = False, env_cost = None,
                           env_data = Some (D_productByHandle None)\<rparr>],
      trace = [], fs = Map.empty, strict_json = True\<rparr>
   = (Inl TypeError,
      \<lparr>script = [], trace = [Request (Q_productByHandle ''tee'')], fs = Map.empty,
       strict_json = True\<rparr>)"
  by (simp add: process_group_def check_product_exists_def run_graphql_query_def
        encode_failure_def exchange_def create_product_with_variants_def
        product_fields_def row_item_def row_get_def strip_def)

text \<open>
  C2, as the code has it.  When the handle resolves to an existing product and the core
  update reports no product, \<open>update_product\<close> sends nothing after that mutation (images
  and metafields are skipped); the group then goes on, from there, with the option-ensure
  step and the create or update of a variant for every row.
\<close>

theorem core_update_failure_skips_assets_only:
  assumes "run_graphql_query (Q_productByHandle handle) w
             = (Inr (Some (D_productByHandle (Some product_data))), w1)"
      and "product_fields main_row = Inr input_vars"
      and "run_graphql_query (M_productUpdate (pl_id product_data) input_vars) w1
             = (Inr data, w2)"
      and "\<not> product_updated data"
  shows "update_product (pl_id product_data) main_row w1 = (Inr (), w2)
       \<and> process_group (handle, main_row # rows) w
           = (case declared_option_name main_row of
                Inl e \<Rightarrow> (Inl e, w2)
              | Inr option_name \<Rightarrow>
                  (case main_ensure_option (pl_id product_data) (main_row # rows)
                          option_name w2 of
                     (Inl e, w3) \<Rightarrow> (Inl e, w3)
                   | (Inr u, w3) \<Rightarrow>
                       main_row_loop (pl_id product_data) option_name
                         (snd (snd (snd (resolve product_data))))
                         (fst (snd (resolve product_data))) (main_row # rows) w3))"
proof -
  have u: "update_product (pl_id product_data) main_row w1 = (Inr (), w2)"
    by (simp add: update_product_def assms)
  have r: "resolve product_data
             = (Some (pl_id product_data), fst (snd (resolve product_data)),
                pl_options product_data, snd (snd (snd (resolve product_data))))"
    by (simp add: resolve_def Let_def split_beta)
  have c: "check_product_exists handle w
             = (Inr (Some (pl_id product_data), fst (snd (resolve product_data)),
                     pl_options product_data, snd (snd (snd (resolve product_data)))), w1)"
    using r by (simp add: check_product_exists_def assms(1))
  have "process_group (handle, main_row # rows) w
           = (case declared_option_name main_row of
                Inl e \<Rightarrow> (Inl e, w2)
              | Inr option_name \<Rightarrow>
                  (case main_ensure_option (pl_id product_data) (main_row # rows)
                          option_name w2 of
                     (Inl e, w3) \<Rightarrow> (Inl e, w3)
                   | (Inr u, w3) \<Rightarrow>
                       main_row_loop (pl_id product_data) option_name
                         (snd (snd (snd (resolve product_data))))
                         (fst (snd (resolve product_data))) (main_row # rows) w3))"
    by (simp add: process_group_def c u)
  with u show ?thesis by simp
qed

theorem core_update_failure_skips_assets_only_witness:
  "requests_of (trace (snd (process_group
     (''tee'', [[(''handle'', CStr ''tee''), (''title'', CStr ''Tee''),
                 (''variant_sku'', CStr ''A''), (''variant_price'', CStr ''10''),
                 (''variant_option1_name'', CNaN), (''variant_option1_value'', CNaN),
                 (''images'', CStr ''https://x/a.jpg''),
                 (''metafield_custom_brand'', CStr ''Acme'')]])
     \<lparr>script = [Response \<lparr>env_errors = False, env_cost = None,
                           env_data = Some (D_productByHandle
                             (Some \<lparr>pl_id = ''p1'', pl_options = [''Size''],
                                    pl_variants = []\<rparr>))\<rparr>,
                 TransportFailure],
      trace = [], fs = Map.empty, strict_json = True\<rparr>)))
   = [Q_productByHandle ''tee'',
      M_productUpdate ''p1'' \<lparr>pi_handle = CStr ''tee'', pi_title = CStr ''Tee'',
                              pi_descriptionHtml = [], pi_vendor = [], pi_productType = [],
                              pi_tags = []\<rparr>,
      M_productVariantsBulkCreate ''p1'' ''10'' None]"
proof -
  let ?row = "[(''handle'', CStr ''tee''), (''title'', CStr ''Tee''),
               (''variant_sku'', CStr ''A''), (''variant_price'', CStr ''10''),
               (''variant_option1_name'', CNaN), (''variant_option1_value'', CNaN),
               (''images'', CStr ''https://x/a.jpg''),
               (''metafield_custom_brand'', CStr ''Acme'')]"
  let ?inp = "\<lparr>pi_handle = CStr ''tee'', pi_title = CStr ''Tee'',
                pi_descriptionHtml = [], pi_vendor = [], pi_productType = [],
                pi_tags = []\<rparr>"
  let ?pd = "\<lparr>pl_id = ''p1'', pl_options = [''Size''], pl_variants = []\<rparr>"
  let ?w = "\<lparr>script = [Response \<lparr>env_errors = False, env_cost = None,
                                   env_data = Some (D_productByHandle (Some ?pd))\<rparr>,
                         TransportFailure],
              trace = [], fs = Map.empty, strict_json = True\<rparr>"
  let ?w1 = "\<lparr>script = [TransportFailure], trace = [Request (Q_productByHandle ''tee'')],
               fs = Map.empty, strict_json = True\<rparr>"
  let ?w2 = "\<lparr>script = [],
               trace = [Request (Q_productByHandle ''tee''),
                        Request (M_productUpdate ''p1'' ?inp)],
               fs = Map.empty, strict_json = True\<rparr>"
  have h1: "run_graphql_query (Q_productByHandle ''tee'') ?w
              = (Inr (Some (D_productByHandle (Some ?pd))), ?w1)"
    by (simp add: run_graphql_query_def encode_failure_def exchange_def)
  have h2: "product_fields ?row = Inr ?inp"
    by (simp add: product_fields_def row_item_def row_get_def strip_def)
  have h3: "run_graphql_query (M_productUpdate (pl_id ?pd) ?inp) ?w1 = (Inr None, ?w2)"
    by (simp add: run_graphql_query_def encode_failure_def exchange_def)
  have h4: "\<not> product_updated None"
    by (simp add: product_updated_def)
  show ?thesis
    using core_update_failure_skips_assets_only [OF h1 h2 h3 h4, of "[]"]
    by (simp add: declared_option_name_def main_ensure_option_def main_row_step_def
          create_variant_def resolve_def row_get_def row_item_def isna_def strip_def
          is_space_def run_graphql_query_def encode_failure_def exchange_def Let_def)
qed

text \<open>
  C2, as stated, fails: here the core update of an existing product fails (the second
  outcome is a network failure), and the group still asks for the product's options,
  creates the option and updates the price of the variant that has the row's SKU.
\<close>

theorem core_update_failure_continues_counterexample:
  "requests_of (trace (snd (process_group
     (''tee'', [[(''handle'', CStr ''tee''), (''title'', CStr ''Tee''),
                 (''variant_sku'', CStr ''A''), (''variant_price'', CStr ''10''),
                 (''variant_option1_name'', CStr ''Size''),
                 (''variant_option1_value'', CStr ''Small'')]])
     \<lparr>script = [Response \<lparr>env_errors = False, env_cost = None,
                           env_data = Some (D_productByHandle
                             (Some \<lparr>pl_id = ''p1'', pl_options = [],
                                    pl_variants = [\<lparr>vn_id = ''v1'', vn_sku = Some ''A'',
                                                     vn_title = ''Default Title''\<rparr>]\<rparr>))\<rparr>,
                 TransportFailure],
      trace = [], fs = Map.empty, strict_json = True\<rparr>)))
   = [Q_productByHandle ''tee'',
      M_productUpdate ''p1'' \<lparr>pi_handle = CStr ''tee'', pi_title = CStr ''Tee'',
                              pi_descriptionHtml = [], pi_vendor = [], pi_productType = [],
                              pi_tags = []\<rparr>,
      Q_getProduct ''p1'',
      M_productOptionsCreate ''p1'' ''Size'' [''Small''],
      M_productVariantsBulkUpdate None [(''v1'', ''10'')]]"
  by (simp add: process_group_def check_product_exists_def resolve_def update_product_def
        product_updated_def product_fields_def declared_option_name_def
        main_ensure_option_def ensure_product_options_exist_def main_row_step_def
        update_variant_def row_get_def row_item_def isna_def strip_def is_space_def
        run_graphql_query_def encode_failure_def exchange_def Let_def)
subsection \<open>The default variant as the target of new SKUs\<close>

















end
